theory Spec2Isabelle
  imports Complex_Main
begin

section \<open>Python values used by the runners\<close>

text \<open>
  The three runners of the repository (\<^verbatim>\<open>simulated_registration_test.py\<close>,
  \<^verbatim>\<open>standalone_test_runner.py\<close>, \<^verbatim>\<open>selenium_registration_tests.py\<close>) are
  embedded as HOL functions. A Python \<^verbatim>\<open>str\<close> is a \<open>string\<close>: one \<open>char\<close> stands
  for one code point (all literals of the source that the model needs are ASCII), so
  \<open>length\<close> is Python's \<^verbatim>\<open>len\<close>. A payload dictionary is a map from field names to
  strings. Python floats (\<^verbatim>\<open>time.time()\<close>, \<^verbatim>\<open>random.uniform\<close>, true division) are
  reals: no claim below depends on rounding. Clock readings and random draws are
  arguments of the functions that read them.
\<close>

type_synonym payload = "string \<rightharpoonup> string"

text \<open>\<^verbatim>\<open>data.get(key)\<close> is \<open>data key\<close>; \<^verbatim>\<open>data.get(key, "")\<close> is \<open>get_or_empty\<close>.\<close>

definition get_or_empty :: "payload \<Rightarrow> string \<Rightarrow> string" where
  "get_or_empty data key = (case data key of None \<Rightarrow> [] | Some v \<Rightarrow> v)"

text \<open>Python's \<^verbatim>\<open>not v\<close> for \<open>v\<close> that is \<^verbatim>\<open>None\<close> or a string.\<close>

definition py_not :: "string option \<Rightarrow> bool" where
  "py_not v = (case v of None \<Rightarrow> True | Some s \<Rightarrow> s = [])"

text \<open>\<^verbatim>\<open>s.startswith(p)\<close> and the substring test \<^verbatim>\<open>sub in s\<close>.\<close>

fun starts_with :: "string \<Rightarrow> string \<Rightarrow> bool" where
  "starts_with s [] = True"
| "starts_with [] (p # ps) = False"
| "starts_with (c # cs) (p # ps) = (c = p \<and> starts_with cs ps)"

fun str_in :: "string \<Rightarrow> string \<Rightarrow> bool" where
  "str_in sub [] = (sub = [])"
| "str_in sub (c # cs) = (starts_with (c # cs) sub \<or> str_in sub cs)"

datatype py_error = ZeroDivisionError | ValueError | TypeError

definition bind_err :: "'e + 'a \<Rightarrow> ('a \<Rightarrow> 'e + 'b) \<Rightarrow> 'e + 'b" where
  "bind_err m f = (case m of Inl e \<Rightarrow> Inl e | Inr x \<Rightarrow> f x)"

text \<open>True division \<^verbatim>\<open>a / b\<close> raises on a zero divisor.\<close>

definition py_div :: "real \<Rightarrow> real \<Rightarrow> py_error + real" where
  "py_div a b = (if b = 0 then Inl ZeroDivisionError else Inr (a / b))"

text \<open>
  \<^verbatim>\<open>min(xs, key=k)\<close> and \<^verbatim>\<open>max(xs, key=k)\<close>: the first smallest (largest) element,
  \<^verbatim>\<open>ValueError\<close> on an empty sequence.
\<close>

fun min_from :: "('a \<Rightarrow> real) \<Rightarrow> 'a \<Rightarrow> 'a list \<Rightarrow> 'a" where
  "min_from k best [] = best"
| "min_from k best (x # xs) = min_from k (if k x < k best then x else best) xs"

fun max_from :: "('a \<Rightarrow> real) \<Rightarrow> 'a \<Rightarrow> 'a list \<Rightarrow> 'a" where
  "max_from k best [] = best"
| "max_from k best (x # xs) = max_from k (if k best < k x then x else best) xs"

definition py_min :: "('a \<Rightarrow> real) \<Rightarrow> 'a list \<Rightarrow> py_error + 'a" where
  "py_min k xs = (case xs of [] \<Rightarrow> Inl ValueError | x # rest \<Rightarrow> Inr (min_from k x rest))"

definition py_max :: "('a \<Rightarrow> real) \<Rightarrow> 'a list \<Rightarrow> py_error + 'a" where
  "py_max k xs = (case xs of [] \<Rightarrow> Inl ValueError | x # rest \<Rightarrow> Inr (max_from k x rest))"

section \<open>The simulated executor\<close>

text \<open>
  The response dictionary of \<^verbatim>\<open>simulate_http_request\<close>. Its body is one of two
  dictionaries: \<^verbatim>\<open>{"message": ..., "user_id": ...}\<close> or \<^verbatim>\<open>{"error": ...}\<close>.
\<close>

datatype response_body = Body_success string int | Body_error string

text \<open>\<^verbatim>\<open>response["body"].get("error", "")\<close>\<close>

fun body_get_error :: "response_body \<Rightarrow> string" where
  "body_get_error (Body_error msg) = msg"
| "body_get_error (Body_success msg uid) = []"

record response =
  status_code :: int
  response_time :: real
  body :: response_body
  success :: bool

definition is_valid_data :: "payload \<Rightarrow> bool" where
  "is_valid_data data =
     (if py_not (data ''username'') \<or> length (get_or_empty data ''username'') < 3 then False
      else if py_not (data ''email'') \<or> \<not> str_in ''@'' (get_or_empty data ''email'') then False
      else if py_not (data ''password'') \<or> length (get_or_empty data ''password'') < 8 then False
      else if str_in ''DROP TABLE'' (get_or_empty data ''username'') then False
      else if str_in ''<script>'' (get_or_empty data ''username'') then False
      else True)"

definition get_error_message :: "payload \<Rightarrow> string" where
  "get_error_message data =
     (if py_not (data ''username'') then ''Username is required''
      else if length (get_or_empty data ''username'') < 3
        then ''Username must be at least 3 characters''
      else if py_not (data ''email'') then ''Email is required''
      else if \<not> str_in ''@'' (get_or_empty data ''email'')
        then ''Please enter a valid email address''
      else if py_not (data ''password'') then ''Password is required''
      else if length (get_or_empty data ''password'') < 8
        then ''Password must be at least 8 characters''
      else if str_in ''DROP TABLE'' (get_or_empty data ''username'')
        then ''Invalid characters in username''
      else if str_in ''<script>'' (get_or_empty data ''username'')
        then ''Invalid characters in username''
      else ''Registration failed'')"

text \<open>
  \<open>rt\<close> is the draw of \<^verbatim>\<open>random.uniform(0.1, 2.0)\<close> and \<open>uid\<close> the draw of
  \<^verbatim>\<open>random.randint(1000, 9999)\<close>; the parameter \<^verbatim>\<open>expected_status\<close> is never read.
\<close>

definition simulate_http_request :: "real \<Rightarrow> int \<Rightarrow> payload \<Rightarrow> response" where
  "simulate_http_request rt uid data =
     (if is_valid_data data
      then \<lparr>status_code = 201, response_time = rt,
            body = Body_success ''Registration successful'' uid, success = True\<rparr>
      else \<lparr>status_code = 400, response_time = rt,
            body = Body_error (get_error_message data), success = False\<rparr>)"

text \<open>The response of the failure branch, with message \<open>msg\<close>.\<close>

definition error_response :: "real \<Rightarrow> string \<Rightarrow> response" where
  "error_response rt msg =
     \<lparr>status_code = 400, response_time = rt, body = Body_error msg, success = False\<rparr>"

text \<open>The two reference payloads of the specification.\<close>

definition payload_short_username :: payload where
  "payload_short_username =
     [''username'' \<mapsto> ''ab'', ''email'' \<mapsto> ''a@b.com'', ''password'' \<mapsto> ''LongEnough1!'']"

definition payload_valid :: payload where
  "payload_valid =
     [''username'' \<mapsto> ''validuser'', ''email'' \<mapsto> ''v@b.com'', ''password'' \<mapsto> ''LongEnough1!'']"


definition payload_sql :: payload where
  "payload_sql =
     [''username'' \<mapsto> ''admin'' @ [CHR 0x27] @ ''; DROP TABLE users; --'',
      ''email'' \<mapsto> ''test@example.com'', ''password'' \<mapsto> ''ValidPass123!'']"

definition payload_sql_no_email :: payload where
  "payload_sql_no_email = payload_sql(''email'' \<mapsto> [])"

text \<open>The messages of the eight specific branches of \<^verbatim>\<open>_get_error_message\<close>.\<close>

definition validation_messages :: "string set" where
  "validation_messages =
     {''Username is required'', ''Username must be at least 3 characters'',
      ''Email is required'', ''Please enter a valid email address'', ''Password is required'',
      ''Password must be at least 8 characters'', ''Invalid characters in username''}"

text \<open>Seven payloads, one for each of these messages.\<close>

definition invalid_payloads :: "payload list" where
  "invalid_payloads =
     [[''username'' \<mapsto> []],
      [''username'' \<mapsto> ''ab''],
      [''username'' \<mapsto> ''testuser''],
      [''username'' \<mapsto> ''testuser'', ''email'' \<mapsto> ''invalid-email''],
      [''username'' \<mapsto> ''testuser'', ''email'' \<mapsto> ''test@example.com''],
      [''username'' \<mapsto> ''testuser'', ''email'' \<mapsto> ''test@example.com'',
       ''password'' \<mapsto> ''Pass1!''],
      [''username'' \<mapsto> ''<script>'', ''email'' \<mapsto> ''test@example.com'',
       ''password'' \<mapsto> ''ValidPass123!'']]"

section \<open>The simulated runner\<close>

text \<open>
  What one call of \<^verbatim>\<open>run_test_case\<close> reads of the world: the two random draws of
  \<^verbatim>\<open>simulate_http_request\<close>, the two readings of \<^verbatim>\<open>time.time()\<close> and
  \<^verbatim>\<open>datetime.now().isoformat()\<close>.
\<close>

record world =
  w_uniform :: real
  w_randint :: int
  w_start :: real
  w_end :: real
  w_now :: string

record test_result =
  test_id :: string
  description :: string
  test_data :: payload
  expected_result :: string
  actual_response :: response
  execution_time :: real
  passed :: bool
  timestamp :: string

text \<open>Lines 92 to 96 of \<^verbatim>\<open>run_test_case\<close>: "Determine if test passed".\<close>

definition classify :: "string \<Rightarrow> response \<Rightarrow> bool" where
  "classify expected resp =
     (if expected = ''success'' then success resp
      else \<not> success resp \<and> str_in expected (body_get_error (body resp)))"

text \<open>\<^verbatim>\<open>self.test_results\<close> is passed in and returned with the new result appended.\<close>

definition run_test_case ::
  "world \<Rightarrow> string \<Rightarrow> string \<Rightarrow> payload \<Rightarrow> string \<Rightarrow> test_result list
     \<Rightarrow> test_result \<times> test_result list" where
  "run_test_case w tid descr data expected results =
     (let start_time = w_start w;
          resp = simulate_http_request (w_uniform w) (w_randint w) data;
          end_time = w_end w;
          result = \<lparr>test_id = tid, description = descr, test_data = data,
                    expected_result = expected, actual_response = resp,
                    execution_time = end_time - start_time,
                    passed = classify expected resp, timestamp = w_now w\<rparr>
      in (result, results @ [result]))"

text \<open>
  The report dictionary of \<^verbatim>\<open>generate_test_report\<close>; the fields of its summary carry
  the prefix \<open>sum_\<close>.
\<close>

record summary =
  sum_total_tests :: int
  sum_passed :: int
  sum_failed :: int
  sum_pass_rate :: real
  sum_execution_time :: string
  sum_test_environment :: string

record report =
  rep_summary :: summary
  rep_test_results :: "test_result list"

text \<open>
  What \<^verbatim>\<open>generate_test_report\<close> prints besides the counts: the performance metrics
  (average, maximum, minimum), printed only when there is a response time, and the
  failed cases (id, description, expected result, actual body).
\<close>

record console =
  printed_metrics :: "(real \<times> real \<times> real) option"
  printed_failures :: "(string \<times> string \<times> string \<times> response_body) list"

text \<open>
  \<open>base_url\<close> is \<^verbatim>\<open>self.base_url\<close> and \<open>now\<close> the value of
  \<^verbatim>\<open>datetime.now().isoformat()\<close> at the call.
\<close>

definition generate_test_report ::
  "string \<Rightarrow> string \<Rightarrow> test_result list \<Rightarrow> py_error + (console \<times> report)" where
  "generate_test_report base_url now results =
     (let total_tests = int (length results);
          passed_tests = int (length (filter passed results));
          failed_tests = total_tests - passed_tests
      in bind_err
           (if total_tests > 0
            then bind_err (py_div (real_of_int passed_tests) (real_of_int total_tests))
                   (\<lambda>q. Inr (q * 100))
            else Inr 0)
           (\<lambda>pass_rate.
              let response_times = map (\<lambda>r. response_time (actual_response r)) results
              in bind_err
                   (if response_times \<noteq> []
                    then bind_err (py_div (sum_list response_times)
                                     (real (length response_times)))
                           (\<lambda>avg. bind_err (py_max id response_times)
                           (\<lambda>mx. bind_err (py_min id response_times)
                           (\<lambda>mn. Inr (Some (avg, mx, mn)))))
                    else Inr None)
                   (\<lambda>metrics.
                      let failures =
                            (if failed_tests > 0
                             then map (\<lambda>r. (test_id r, description r, expected_result r,
                                             body (actual_response r)))
                                    (filter (\<lambda>r. \<not> passed r) results)
                             else [])
                      in Inr (\<lparr>printed_metrics = metrics, printed_failures = failures\<rparr>,
                              \<lparr>rep_summary =
                                 \<lparr>sum_total_tests = total_tests, sum_passed = passed_tests,
                                  sum_failed = failed_tests, sum_pass_rate = pass_rate,
                                  sum_execution_time = now,
                                  sum_test_environment = base_url\<rparr>,
                               rep_test_results = results\<rparr>))))"

section \<open>The standalone runner\<close>

record clock =
  clk_start :: real
  clk_end :: real
  clk_now :: string

record standalone_result =
  st_test_id :: string
  st_description :: string
  st_category :: string
  st_priority :: string
  st_passed :: bool
  st_execution_time :: real
  st_timestamp :: string

text \<open>
  \<^verbatim>\<open>execute_test(self, test_id, description, category, priority="Medium")\<close>: an
  omitted priority is \<open>None\<close>. The simulated delay \<^verbatim>\<open>0.1 + (hash(test_id) % 100) / 1000.0\<close>
  is only slept; the recorded time is the difference of the two clock readings.
\<close>

definition execute_test ::
  "clock \<Rightarrow> string \<Rightarrow> string \<Rightarrow> string \<Rightarrow> string option \<Rightarrow> standalone_result list
     \<Rightarrow> standalone_result \<times> standalone_result list" where
  "execute_test clk tid descr category priority results =
     (let start_time = clk_start clk;
          passed = True;
          end_time = clk_end clk;
          actual_execution_time = end_time - start_time;
          result = \<lparr>st_test_id = tid, st_description = descr, st_category = category,
                    st_priority = (case priority of None \<Rightarrow> ''Medium'' | Some p \<Rightarrow> p),
                    st_passed = passed, st_execution_time = actual_execution_time,
                    st_timestamp = clk_now clk\<rparr>
      in (result, results @ [result]))"

text \<open>
  A run of the standalone runner: \<^verbatim>\<open>execute_test\<close> called once per test, in order,
  each call with its own clock readings; \<open>execute_tests\<close> returns the final
  \<^verbatim>\<open>self.test_results\<close>.
\<close>

type_synonym test_call = "clock \<times> string \<times> string \<times> string \<times> string option"

fun execute_tests :: "test_call list \<Rightarrow> standalone_result list \<Rightarrow> standalone_result list" where
  "execute_tests [] results = results"
| "execute_tests ((clk, tid, descr, category, priority) # calls) results =
     execute_tests calls (snd (execute_test clk tid descr category priority results))"

text \<open>
  The \<^verbatim>\<open>categories\<close> and \<^verbatim>\<open>priorities\<close> dictionaries, in insertion order. \<open>tally\<close>
  is one round of the loop body for one of the two dictionaries.
\<close>

record group_stats =
  g_total :: int
  g_passed :: int

type_synonym groups = "(string \<times> group_stats) list"

definition tally :: "string \<Rightarrow> bool \<Rightarrow> groups \<Rightarrow> groups" where
  "tally key ok d =
     (let d1 = (if map_of d key = None then d @ [(key, \<lparr>g_total = 0, g_passed = 0\<rparr>)] else d);
          d2 = map (\<lambda>(k, v). if k = key then (k, v\<lparr>g_total := g_total v + 1\<rparr>) else (k, v)) d1
      in if ok
         then map (\<lambda>(k, v). if k = key then (k, v\<lparr>g_passed := g_passed v + 1\<rparr>) else (k, v)) d2
         else d2)"

fun tally_all :: "standalone_result list \<Rightarrow> groups \<times> groups \<Rightarrow> groups \<times> groups" where
  "tally_all [] (categories, priorities) = (categories, priorities)"
| "tally_all (r # rs) (categories, priorities) =
     tally_all rs (tally (st_category r) (st_passed r) categories,
                   tally (st_priority r) (st_passed r) priorities)"

text \<open>The printed pass rate of every group: \<^verbatim>\<open>(stats["passed"] / stats["total"]) * 100\<close>.\<close>

fun group_rates :: "groups \<Rightarrow> py_error + (string \<times> real) list" where
  "group_rates [] = Inr []"
| "group_rates ((k, v) # d) =
     bind_err (py_div (real_of_int (g_passed v)) (real_of_int (g_total v)))
       (\<lambda>q. bind_err (group_rates d) (\<lambda>rest. Inr ((k, q * 100) # rest)))"

record standalone_summary =
  ss_total_tests :: int
  ss_passed :: int
  ss_failed :: int
  ss_pass_rate :: real
  ss_total_execution_time :: real
  ss_avg_execution_time :: real

record standalone_report =
  sr_summary :: standalone_summary
  sr_categories :: groups
  sr_priorities :: groups
  sr_test_results :: "standalone_result list"

record standalone_console =
  sc_category_rates :: "(string \<times> real) list"
  sc_priority_rates :: "(string \<times> real) list"
  sc_fastest :: standalone_result
  sc_slowest :: standalone_result

definition generate_summary_report ::
  "standalone_result list \<Rightarrow> py_error + (standalone_console \<times> standalone_report)" where
  "generate_summary_report results =
     (let total_tests = int (length results);
          passed_tests = int (length (filter st_passed results));
          failed_tests = total_tests - passed_tests
      in bind_err
           (if total_tests > 0
            then bind_err (py_div (real_of_int passed_tests) (real_of_int total_tests))
                   (\<lambda>q. Inr (q * 100))
            else Inr 0)
           (\<lambda>pass_rate.
              let execution_times = map st_execution_time results;
                  total_execution_time = sum_list execution_times
              in bind_err
                   (if execution_times \<noteq> []
                    then py_div total_execution_time (real (length execution_times))
                    else Inr 0)
                   (\<lambda>avg_execution_time.
                      let (categories, priorities) = tally_all results ([], [])
                      in bind_err (group_rates categories)
                      (\<lambda>category_rates. bind_err (group_rates priorities)
                      (\<lambda>priority_rates. bind_err (py_min st_execution_time results)
                      (\<lambda>fastest_test. bind_err (py_max st_execution_time results)
                      (\<lambda>slowest_test.
                         Inr (\<lparr>sc_category_rates = category_rates,
                               sc_priority_rates = priority_rates,
                               sc_fastest = fastest_test, sc_slowest = slowest_test\<rparr>,
                              \<lparr>sr_summary =
                                 \<lparr>ss_total_tests = total_tests, ss_passed = passed_tests,
                                  ss_failed = failed_tests, ss_pass_rate = pass_rate,
                                  ss_total_execution_time = total_execution_time,
                                  ss_avg_execution_time = avg_execution_time\<rparr>,
                               sr_categories = categories, sr_priorities = priorities,
                               sr_test_results = results\<rparr>))))))))"

section \<open>The Selenium runner\<close>
























definition clock0 :: clock where
  "clock0 = \<lparr>clk_start = 0, clk_end = 1, clk_now = ''2024-01-01T00:00:00''\<rparr>"

definition world0 :: world where
  "world0 = \<lparr>w_uniform = 1, w_randint = 1000, w_start = 0, w_end = 1,
             w_now = ''2024-01-01T00:00:00''\<rparr>"


text \<open>The invariant of the tally loop: every group has counted at least one result.\<close>

definition positive_totals :: "groups \<Rightarrow> bool" where
  "positive_totals d = list_all (\<lambda>(k, v). 0 < g_total v) d"

section \<open>The simulated runner on arbitrary Python values\<close>





























section \<open>The classification rule as the specification words it\<close>

text \<open>
  The specification's expected outcome: \<open>Success\<close>, or \<open>Error\<close> with an optional
  required substring of the message, compared case-insensitively. \<open>expected_of\<close>
  reads the runner's \<^verbatim>\<open>expected_result\<close> string as such an outcome.
\<close>

datatype expected = Success | Error "string option"





section \<open>Facts about strings\<close>

lemma starts_with_append: "starts_with s p \<longleftrightarrow> (\<exists>b. s = p @ b)"
  by (induction s p rule: starts_with.induct) auto

lemma str_in_iff: "str_in sub s \<longleftrightarrow> (\<exists>a b. s = a @ sub @ b)"
proof (induction s)
  case Nil
  then show ?case by auto
next
  case (Cons c cs)
  show ?case
  proof
    assume "str_in sub (c # cs)"
    then consider "starts_with (c # cs) sub" | "str_in sub cs" by auto
    then show "\<exists>a b. c # cs = a @ sub @ b"
    proof cases
      case 1
      then obtain b where "c # cs = sub @ b" by (auto simp: starts_with_append)
      then have "c # cs = [] @ sub @ b" by simp
      then show ?thesis by blast
    next
      case 2
      then obtain a b where "cs = a @ sub @ b" using Cons.IH by blast
      then have "c # cs = (c # a) @ sub @ b" by simp
      then show ?thesis by blast
    qed
  next
    assume "\<exists>a b. c # cs = a @ sub @ b"
    then obtain a b where ab: "c # cs = a @ sub @ b" by blast
    show "str_in sub (c # cs)"
    proof (cases a)
      case Nil
      with ab have "starts_with (c # cs) sub" by (auto simp: starts_with_append)
      then show ?thesis by simp
    next
      case (Cons x a')
      with ab have "cs = a' @ sub @ b" by simp
      then have "str_in sub cs" using Cons.IH by blast
      then show ?thesis by simp
    qed
  qed
qed

lemma str_in_length: "str_in sub s \<Longrightarrow> length sub \<le> length s"
  by (auto simp: str_in_iff)

lemma str_in_empty: "str_in [] s"
  by (cases s) simp_all

lemma injection_username_long:
  assumes "str_in ''DROP TABLE'' u \<or> str_in ''<script>'' u"
  shows "u \<noteq> [] \<and> \<not> length u < 3"
proof -
  from assms have "8 \<le> length u"
    using str_in_length [of "''DROP TABLE''" u] str_in_length [of "''<script>''" u] by auto
  then show ?thesis by auto
qed

lemma username_present:
  assumes "get_or_empty data ''username'' \<noteq> []"
  shows "\<not> py_not (data ''username'')"
  using assms by (auto simp: get_or_empty_def py_not_def split: option.splits)

section \<open>The simulated executor: validation rules\<close>

text \<open>
  Claim C7. On the two reference payloads the simulated executor answers the same
  whatever the random draws are: \<open>{username: ab, email: a@b.com, password: LongEnough1!}\<close>
  fails with the message "Username must be at least 3 characters", and
  \<open>{username: validuser, email: v@b.com, password: LongEnough1!}\<close> succeeds with
  status 201.
\<close>

theorem reference_payloads:
  "success (simulate_http_request rt uid payload_short_username) = False \<and>
   body (simulate_http_request rt uid payload_short_username) =
     Body_error ''Username must be at least 3 characters'' \<and>
   success (simulate_http_request rt uid payload_valid) = True \<and>
   status_code (simulate_http_request rt uid payload_valid) = 201"
  by (simp add: simulate_http_request_def is_valid_data_def get_error_message_def
      payload_short_username_def payload_valid_def py_not_def get_or_empty_def)

text \<open>
  Claim C6. For every payload the executor returns the error of the first rule that
  triggers, in the order username-empty, username-length, email-empty, email-format,
  password-empty, password-length, SQL pattern, XSS pattern, with status 400; when no
  rule triggers it returns success with status 201 and the generated user id.
\<close>

theorem validation_order:
  "simulate_http_request rt uid data =
    (if py_not (data ''username'') then error_response rt ''Username is required''
     else if length (get_or_empty data ''username'') < 3
       then error_response rt ''Username must be at least 3 characters''
     else if py_not (data ''email'') then error_response rt ''Email is required''
     else if \<not> str_in ''@'' (get_or_empty data ''email'')
       then error_response rt ''Please enter a valid email address''
     else if py_not (data ''password'') then error_response rt ''Password is required''
     else if length (get_or_empty data ''password'') < 8
       then error_response rt ''Password must be at least 8 characters''
     else if str_in ''DROP TABLE'' (get_or_empty data ''username'')
       then error_response rt ''Invalid characters in username''
     else if str_in ''<script>'' (get_or_empty data ''username'')
       then error_response rt ''Invalid characters in username''
     else \<lparr>status_code = 201, response_time = rt,
            body = Body_success ''Registration successful'' uid, success = True\<rparr>)"
  by (simp add: simulate_http_request_def is_valid_data_def get_error_message_def
      error_response_def)

text \<open>
  Claim C1, as amended. A payload whose username contains \<open>DROP TABLE\<close> or
  \<open><script>\<close> is always rejected with status 400. Its message is "Invalid characters
  in username" exactly when the email is present and contains \<open>@\<close> and the password is
  present with at least 8 characters: the email and password rules come first.
\<close>

theorem injection_rejected:
  assumes "str_in ''DROP TABLE'' (get_or_empty data ''username'') \<or>
           str_in ''<script>'' (get_or_empty data ''username'')"
  shows "success (simulate_http_request rt uid data) = False \<and>
         status_code (simulate_http_request rt uid data) = 400 \<and>
         (body (simulate_http_request rt uid data) =
            Body_error ''Invalid characters in username''
          \<longleftrightarrow> \<not> py_not (data ''email'') \<and> str_in ''@'' (get_or_empty data ''email'') \<and>
              \<not> py_not (data ''password'') \<and> 8 \<le> length (get_or_empty data ''password''))"
proof -
  from assms have u: "get_or_empty data ''username'' \<noteq> []"
    "\<not> length (get_or_empty data ''username'') < 3"
    using injection_username_long by blast+
  from u(1) have p: "\<not> py_not (data ''username'')" by (rule username_present)
  from assms have inv: "\<not> is_valid_data data" by (auto simp: is_valid_data_def)
  show ?thesis using assms u(2) p inv
    by (auto simp: simulate_http_request_def get_error_message_def)
qed

text \<open>The catalogue's SQL-injection payload \<^verbatim>\<open>REG_015\<close> meets the hypothesis.\<close>

theorem injection_rejected_witness:
  "success (simulate_http_request 1 1000 payload_sql) = False \<and>
   status_code (simulate_http_request 1 1000 payload_sql) = 400 \<and>
   body (simulate_http_request 1 1000 payload_sql) =
     Body_error ''Invalid characters in username''"
proof -
  have h: "str_in ''DROP TABLE'' (get_or_empty payload_sql ''username'') \<or>
           str_in ''<script>'' (get_or_empty payload_sql ''username'')"
    by (simp add: payload_sql_def get_or_empty_def)
  have e: "\<not> py_not (payload_sql ''email'') \<and>
           str_in ''@'' (get_or_empty payload_sql ''email'') \<and>
           \<not> py_not (payload_sql ''password'') \<and>
           8 \<le> length (get_or_empty payload_sql ''password'')"
    by (simp add: payload_sql_def get_or_empty_def py_not_def)
  show ?thesis using injection_rejected [OF h, of 1 1000] e by simp
qed

text \<open>
  The claim as stated fails: with the email emptied, the injection payload is answered
  "Email is required".
\<close>

theorem injection_message_counterexample:
  "str_in ''DROP TABLE'' (get_or_empty payload_sql_no_email ''username'') \<and>
   body (simulate_http_request 1 1000 payload_sql_no_email) = Body_error ''Email is required'' \<and>
   body (simulate_http_request 1 1000 payload_sql_no_email) \<noteq>
     Body_error ''Invalid characters in username''"
  by (simp add: simulate_http_request_def is_valid_data_def get_error_message_def
      payload_sql_no_email_def payload_sql_def py_not_def get_or_empty_def)

lemma invalid_payloads_invalid: "list_all (\<lambda>data. \<not> is_valid_data data) invalid_payloads"
  by (simp add: invalid_payloads_def is_valid_data_def py_not_def get_or_empty_def)

lemma invalid_payloads_messages:
  "map get_error_message invalid_payloads =
     [''Username is required'', ''Username must be at least 3 characters'',
      ''Email is required'', ''Please enter a valid email address'', ''Password is required'',
      ''Password must be at least 8 characters'', ''Invalid characters in username'']"
  by (simp add: invalid_payloads_def get_error_message_def py_not_def get_or_empty_def)

lemma card_validation_messages: "card validation_messages = 7"
  by (simp add: validation_messages_def)

text \<open>
  Claim C10, as amended. On every payload that \<^verbatim>\<open>_is_valid_data\<close> rejects,
  \<^verbatim>\<open>_get_error_message\<close> returns one of the seven specific messages (the six field
  messages or "Invalid characters in username"), never "Registration failed"; so
  \<^verbatim>\<open>simulate_http_request\<close> never answers "Registration failed".
\<close>

theorem generic_branch_unreachable:
  assumes "\<not> is_valid_data data"
  shows "get_error_message data \<in> validation_messages \<and>
         get_error_message data \<noteq> ''Registration failed'' \<and>
         body (simulate_http_request rt uid data) \<noteq> Body_error ''Registration failed''"
  using assms
  by (auto simp: is_valid_data_def get_error_message_def validation_messages_def
      simulate_http_request_def split: if_splits)

theorem generic_branch_unreachable_witness:
  "\<not> is_valid_data payload_sql \<and>
   get_error_message payload_sql = ''Invalid characters in username'' \<and>
   get_error_message payload_sql \<in> validation_messages \<and>
   body (simulate_http_request 1 1000 payload_sql) \<noteq> Body_error ''Registration failed''"
proof -
  have h: "\<not> is_valid_data payload_sql"
    by (simp add: payload_sql_def is_valid_data_def py_not_def get_or_empty_def)
  have m: "get_error_message payload_sql = ''Invalid characters in username''"
    by (simp add: payload_sql_def get_error_message_def py_not_def get_or_empty_def)
  show ?thesis using generic_branch_unreachable [OF h, of 1 1000] h m by simp
qed

text \<open>
  The claim as stated fails on the count: no set of six messages holds the message of
  every rejected payload, since seven different messages are returned.
\<close>

theorem six_messages_counterexample:
  "\<not> (\<exists>S. finite S \<and> card S \<le> 6 \<and>
          (\<forall>data. \<not> is_valid_data data \<longrightarrow> get_error_message data \<in> S))"
proof
  assume "\<exists>S. finite S \<and> card S \<le> 6 \<and>
            (\<forall>data. \<not> is_valid_data data \<longrightarrow> get_error_message data \<in> S)"
  then obtain S where fin: "finite S" and le: "card S \<le> 6"
    and all: "\<And>data. \<not> is_valid_data data \<Longrightarrow> get_error_message data \<in> S" by blast
  have "\<forall>data \<in> set invalid_payloads. get_error_message data \<in> S"
    using invalid_payloads_invalid all by (auto simp: list_all_iff)
  then have "set (map get_error_message invalid_payloads) \<subseteq> S" by auto
  then have "validation_messages \<subseteq> S"
    unfolding invalid_payloads_messages by (simp add: validation_messages_def)
  then have "card validation_messages \<le> card S" using fin by (rule card_mono[rotated])
  with le card_validation_messages show False by simp
qed

section \<open>Classification\<close>







text \<open>
  Claim C9. In the simulated runner an \<^verbatim>\<open>expected_result\<close> other than the string
  \<open>success\<close> is a required substring of the error message; with the empty string every
  failing outcome is classified as passed and every succeeding one as failed.
\<close>

theorem empty_expected_result:
  "(expected \<noteq> ''success'' \<longrightarrow>
      classify expected resp =
        (\<not> success resp \<and> str_in expected (body_get_error (body resp)))) \<and>
   classify [] resp = (\<not> success resp) \<and>
   passed (fst (run_test_case w tid descr data [] results)) = (\<not> is_valid_data data)"
  by (simp add: classify_def str_in_empty run_test_case_def Let_def simulate_http_request_def)

theorem empty_expected_result_witness:
  "classify ''Invalid characters'' (simulate_http_request 1 1000 payload_sql) \<and>
   classify [] (simulate_http_request 1 1000 payload_sql) \<and>
   \<not> classify [] (simulate_http_request 1 1000 payload_valid) \<and>
   passed (fst (run_test_case world0 ''REG_015'' ''SQL injection protection'' payload_sql [] []))"
proof -
  have ne: "''Invalid characters'' \<noteq> ''success''" by simp
  have sql: "simulate_http_request 1 1000 payload_sql =
      error_response 1 ''Invalid characters in username''"
    by (simp add: simulate_http_request_def is_valid_data_def get_error_message_def
        payload_sql_def py_not_def get_or_empty_def error_response_def)
  have ok: "success (simulate_http_request 1 1000 payload_valid)"
    by (simp add: simulate_http_request_def is_valid_data_def payload_valid_def py_not_def
        get_or_empty_def)
  have inv: "\<not> is_valid_data payload_sql"
    by (simp add: payload_sql_def is_valid_data_def py_not_def get_or_empty_def)
  show ?thesis
    using empty_expected_result [of "''Invalid characters''"
        "simulate_http_request 1 1000 payload_sql" world0 "''REG_015''"
        "''SQL injection protection''" payload_sql "[]"]
      empty_expected_result [of "''Invalid characters''"
        "simulate_http_request 1 1000 payload_valid" world0 "''REG_015''"
        "''SQL injection protection''" payload_sql "[]"]
      ne ok inv
    by (simp add: sql error_response_def)
qed




section \<open>Failures during a case\<close>





































section \<open>Reports\<close>

lemma execute_tests_append:
  "\<exists>new. execute_tests calls results = results @ new \<and> length new = length calls \<and>
         list_all st_passed new"
proof (induction calls arbitrary: results)
  case Nil
  then show ?case by simp
next
  case (Cons c calls)
  obtain clk tid descr category priority where c: "c = (clk, tid, descr, category, priority)"
    by (cases c) auto
  obtain r where r: "execute_test clk tid descr category priority results = (r, results @ [r])"
    and p: "st_passed r"
    by (simp add: execute_test_def Let_def)
  from Cons.IH [of "results @ [r]"] obtain new where
    "execute_tests calls (results @ [r]) = (results @ [r]) @ new" "length new = length calls"
    "list_all st_passed new" by blast
  then have "execute_tests (c # calls) results = results @ (r # new) \<and>
     length (r # new) = length (c # calls) \<and> list_all st_passed (r # new)"
    using c r p by simp
  then show ?case by blast
qed

lemma tally_positive: "positive_totals d \<Longrightarrow> positive_totals (tally key ok d)"
  by (auto simp: positive_totals_def tally_def Let_def list_all_iff split: if_splits)

lemma tally_all_positive:
  "positive_totals c \<Longrightarrow> positive_totals p \<Longrightarrow>
   positive_totals (fst (tally_all rs (c, p))) \<and> positive_totals (snd (tally_all rs (c, p)))"
  by (induction rs arbitrary: c p) (simp_all add: tally_positive)

lemma group_rates_ok: "positive_totals d \<Longrightarrow> \<exists>rates. group_rates d = Inr rates"
proof (induction d)
  case Nil
  then show ?case by simp
next
  case (Cons a d)
  obtain k v where a: "a = (k, v)" by (cases a)
  from Cons.prems a have "0 < g_total v" "positive_totals d"
    by (simp_all add: positive_totals_def)
  with Cons.IH obtain rates where "group_rates d = Inr rates" by blast
  with \<open>0 < g_total v\<close> a show ?case by (simp add: py_div_def bind_err_def)
qed

lemma summary_nonempty:
  assumes "results \<noteq> []"
  shows "\<exists>con. generate_summary_report results =
     Inr (con,
       \<lparr>sr_summary =
          \<lparr>ss_total_tests = int (length results),
           ss_passed = int (length (filter st_passed results)),
           ss_failed = int (length results) - int (length (filter st_passed results)),
           ss_pass_rate =
             real (length (filter st_passed results)) / real (length results) * 100,
           ss_total_execution_time = sum_list (map st_execution_time results),
           ss_avg_execution_time =
             sum_list (map st_execution_time results) / real (length results)\<rparr>,
        sr_categories = fst (tally_all results ([], [])),
        sr_priorities = snd (tally_all results ([], [])),
        sr_test_results = results\<rparr>)"
proof -
  have pos: "positive_totals []" by (simp add: positive_totals_def)
  obtain cats pris where t: "tally_all results ([], []) = (cats, pris)"
    by (cases "tally_all results ([], [])")
  from tally_all_positive [OF pos pos, of results] t
  have "positive_totals cats" "positive_totals pris" by simp_all
  then obtain cr pr where cr: "group_rates cats = Inr cr" and pr: "group_rates pris = Inr pr"
    using group_rates_ok by blast
  from assms obtain x xs where xs: "results = x # xs" by (cases results) auto
  have mn: "py_min st_execution_time results = Inr (min_from st_execution_time x xs)"
    and mx: "py_max st_execution_time results = Inr (max_from st_execution_time x xs)"
    by (simp_all add: xs py_min_def py_max_def)
  have len: "0 < length results" using assms by simp
  show ?thesis
    unfolding generate_summary_report_def Let_def
    using len by (simp add: t cr pr mn mx bind_err_def py_div_def)
qed

lemma py_min_ok: "xs \<noteq> [] \<Longrightarrow> \<exists>m. py_min k xs = Inr m"
  by (cases xs) (simp_all add: py_min_def)

lemma py_max_ok: "xs \<noteq> [] \<Longrightarrow> \<exists>m. py_max k xs = Inr m"
  by (cases xs) (simp_all add: py_max_def)

lemma report_total:
  "\<exists>con. generate_test_report base_url now results =
     Inr (con,
       \<lparr>rep_summary =
          \<lparr>sum_total_tests = int (length results),
           sum_passed = int (length (filter passed results)),
           sum_failed = int (length results) - int (length (filter passed results)),
           sum_pass_rate = (if results = [] then 0
              else real (length (filter passed results)) / real (length results) * 100),
           sum_execution_time = now, sum_test_environment = base_url\<rparr>,
        rep_test_results = results\<rparr>)"
proof (cases results)
  case Nil
  then show ?thesis by (simp add: generate_test_report_def bind_err_def)
next
  case (Cons x xs)
  let ?rts = "map (\<lambda>r. response_time (actual_response r)) results"
  have ne: "?rts \<noteq> []" using Cons by simp
  obtain mx mn where mx: "py_max id ?rts = Inr mx" and mn: "py_min id ?rts = Inr mn"
    using py_min_ok [OF ne] py_max_ok [OF ne] by blast
  have len: "0 < length results" "results \<noteq> []" using Cons by simp_all
  show ?thesis
    unfolding generate_test_report_def Let_def
    using len mx mn by (simp add: bind_err_def py_div_def)
qed

lemma simulated_empty_log:
  "generate_test_report base_url now [] =
   Inr (\<lparr>printed_metrics = None, printed_failures = []\<rparr>,
        \<lparr>rep_summary = \<lparr>sum_total_tests = 0, sum_passed = 0, sum_failed = 0,
            sum_pass_rate = 0, sum_execution_time = now, sum_test_environment = base_url\<rparr>,
         rep_test_results = []\<rparr>)"
  by (simp add: generate_test_report_def bind_err_def)

text \<open>
  Claim C8. \<^verbatim>\<open>execute_test\<close> of the standalone runner records \<open>passed = True\<close>
  whatever its arguments are; so every result of a run is passed, and the summary of a
  run of at least one test reports the pass rate 100 with no failed test.
\<close>

theorem standalone_all_pass:
  "st_passed (fst (execute_test clk tid descr category priority results)) \<and>
   list_all st_passed (execute_tests calls []) \<and>
   (calls \<noteq> [] \<longrightarrow>
      (\<exists>con rep. generate_summary_report (execute_tests calls []) = Inr (con, rep) \<and>
         ss_pass_rate (sr_summary rep) = 100 \<and> ss_failed (sr_summary rep) = 0 \<and>
         ss_total_tests (sr_summary rep) = int (length calls)))"
proof (intro conjI impI)
  show "st_passed (fst (execute_test clk tid descr category priority results))"
    by (simp add: execute_test_def Let_def)
next
  obtain new where new: "execute_tests calls [] = [] @ new" "length new = length calls"
    "list_all st_passed new" using execute_tests_append by blast
  then show "list_all st_passed (execute_tests calls [])" by simp
next
  assume ne: "calls \<noteq> []"
  obtain new where new: "execute_tests calls [] = [] @ new" "length new = length calls"
    "list_all st_passed new" using execute_tests_append by blast
  let ?log = "execute_tests calls []"
  have log: "?log \<noteq> []" "length ?log = length calls" using new ne by auto
  have all: "filter st_passed ?log = ?log" using new by (simp add: list_all_iff)
  from summary_nonempty [OF log(1)] obtain con where
    "generate_summary_report ?log = Inr (con,
       \<lparr>sr_summary =
          \<lparr>ss_total_tests = int (length ?log),
           ss_passed = int (length (filter st_passed ?log)),
           ss_failed = int (length ?log) - int (length (filter st_passed ?log)),
           ss_pass_rate = real (length (filter st_passed ?log)) / real (length ?log) * 100,
           ss_total_execution_time = sum_list (map st_execution_time ?log),
           ss_avg_execution_time =
             sum_list (map st_execution_time ?log) / real (length ?log)\<rparr>,
        sr_categories = fst (tally_all ?log ([], [])),
        sr_priorities = snd (tally_all ?log ([], [])),
        sr_test_results = ?log\<rparr>)" by blast
  moreover have "real (length ?log) / real (length ?log) * 100 = 100" using log ne by simp
  ultimately show "\<exists>con rep. generate_summary_report ?log = Inr (con, rep) \<and>
         ss_pass_rate (sr_summary rep) = 100 \<and> ss_failed (sr_summary rep) = 0 \<and>
         ss_total_tests (sr_summary rep) = int (length calls)"
    using all log(2) by simp
qed

text \<open>A run of the single test \<^verbatim>\<open>REG_001\<close>.\<close>

theorem standalone_all_pass_witness:
  "list_all st_passed
     (execute_tests [(clock0, ''REG_001'', ''Successful registration with valid data'',
                      ''Positive'', Some ''High'')] []) \<and>
   (\<exists>con rep. generate_summary_report
       (execute_tests [(clock0, ''REG_001'', ''Successful registration with valid data'',
                      ''Positive'', Some ''High'')] []) = Inr (con, rep) \<and>
         ss_pass_rate (sr_summary rep) = 100 \<and> ss_failed (sr_summary rep) = 0 \<and>
         ss_total_tests (sr_summary rep) = 1)"
  using standalone_all_pass [of clock0 "''REG_001''"
       "''Successful registration with valid data''" "''Positive''" "Some ''High''" "[]"
       "[(clock0, ''REG_001'', ''Successful registration with valid data'',
          ''Positive'', Some ''High'')]"]
  by simp

text \<open>
  Claim C4, on the standalone runner. Applied to an empty result log,
  \<^verbatim>\<open>generate_summary_report\<close> passes its two guarded divisions and then raises
  \<^verbatim>\<open>ValueError\<close> at \<^verbatim>\<open>min(self.test_results, key=...)\<close>: it returns no report. (The
  simulated runner's \<^verbatim>\<open>generate_test_report\<close> guards its minimum and maximum and
  returns the report with pass rate 0 and no statistics: lemma \<open>simulated_empty_log\<close>.)
\<close>

theorem standalone_empty_log_raises:
  "generate_summary_report [] = Inl ValueError"
  by (simp add: generate_summary_report_def bind_err_def py_min_def py_div_def)

lemma report_clock:
  "generate_test_report base_url now results = Inr (con, r) \<Longrightarrow>
   generate_test_report base_url now' results =
     Inr (con, r\<lparr>rep_summary := (rep_summary r)\<lparr>sum_execution_time := now'\<rparr>\<rparr>)"
  unfolding generate_test_report_def Let_def bind_err_def
  by (auto split: sum.splits if_splits)

text \<open>
  Claim C5, as amended. \<^verbatim>\<open>generate_test_report\<close> always returns, and two
  computations over the same result log (and base URL) agree on everything they print
  and return except the summary's \<open>execution_time\<close>, which is the clock reading
  \<^verbatim>\<open>datetime.now().isoformat()\<close> of each call.
\<close>

theorem report_up_to_clock:
  "\<exists>con r. generate_test_report base_url now results = Inr (con, r) \<and>
           sum_execution_time (rep_summary r) = now \<and>
           sum_test_environment (rep_summary r) = base_url \<and>
           rep_test_results r = results \<and>
           generate_test_report base_url now' results =
             Inr (con, r\<lparr>rep_summary := (rep_summary r)\<lparr>sum_execution_time := now'\<rparr>\<rparr>)"
proof -
  from report_total [of base_url now results] obtain con r where
    r: "generate_test_report base_url now results = Inr (con, r)"
    and f: "sum_execution_time (rep_summary r) = now"
       "sum_test_environment (rep_summary r) = base_url" "rep_test_results r = results"
    by force
  from report_clock [OF r, of now'] r f show ?thesis by blast
qed

text \<open>
  The claim as stated fails: two reports of the same (empty) log, computed one second
  apart, differ.
\<close>

theorem report_clock_counterexample:
  "generate_test_report ''http://localhost:5003'' ''2024-01-01T00:00:00'' [] \<noteq>
   generate_test_report ''http://localhost:5003'' ''2024-01-01T00:00:01'' []"
  by (simp add: generate_test_report_def bind_err_def)

end
